theory Spec2Isabelle
  imports Main
begin

section \<open>Values shared by the decoders\<close>

text \<open>
  Python strings are modelled as \<^typ>\<open>string\<close> (lists of 8-bit characters).
  Exceptions are values of \<open>error\<close>; a function that can raise returns
  \<open>error + 'a\<close> with \<open>Inl\<close> for the exception.
\<close>

datatype error =
  KeyError | IndexError | AttributeError | TypeError | ValueError
  | FileNotFoundError | ParseError

type_synonym triple = "string option \<times> string option \<times> string option"

text \<open>\<^verbatim>\<open>s.split(sep)\<close> for a one-character separator: never empty, \<open>''''\<close> gives \<open>['''']\<close>.\<close>

fun str_split :: "char \<Rightarrow> string \<Rightarrow> string list" where
  "str_split sep [] = [[]]"
| "str_split sep (c # cs) =
     (if c = sep then [] # str_split sep cs
      else (case str_split sep cs of
              [] \<Rightarrow> [[c]]
            | w # ws \<Rightarrow> (c # w) # ws))"

text \<open>\<^verbatim>\<open>x or None\<close> on a string: the empty string becomes \<open>None\<close>.\<close>

definition or_None :: "string \<Rightarrow> string option" where
  "or_None s = (if s = [] then None else Some s)"

text \<open>\<^verbatim>\<open>not x\<close> on a value that is \<open>None\<close> or a string.\<close>

definition falsy :: "string option \<Rightarrow> bool" where
  "falsy x = (case x of None \<Rightarrow> True | Some s \<Rightarrow> s = [])"

definition startswith :: "string \<Rightarrow> string \<Rightarrow> bool" where
  "startswith s p = (take (length p) s = p)"

definition endswith :: "string \<Rightarrow> string \<Rightarrow> bool" where
  "endswith s suf = (length suf \<le> length s \<and> drop (length s - length suf) s = suf)"

definition upper_letters :: string where
  "upper_letters = ''ABCDEFGHIJKLMNOPQRSTUVWXYZ''"

definition lower_letters :: string where
  "lower_letters = ''abcdefghijklmnopqrstuvwxyz''"

definition digit_chars :: string where
  "digit_chars = ''0123456789''"

text \<open>\<^verbatim>\<open>s.lower()\<close> on the ASCII letters; other characters are kept.\<close>

definition lower_char :: "char \<Rightarrow> char" where
  "lower_char c = (if c \<in> set upper_letters then char_of (of_char c + (32::nat)) else c)"

definition lower :: "string \<Rightarrow> string" where
  "lower s = map lower_char s"

section \<open>CpeCodec: \<^verbatim>\<open>SBOMManager.decode_cpe22\<close>, \<^verbatim>\<open>SBOMManager.decode_cpe23\<close>\<close>

text \<open>
  \<^verbatim>\<open>cpe = cpe22.split(":"); vendor, product, version = cpe[2], cpe[3], cpe[4]\<close>;
  an index past the end raises \<open>IndexError\<close>.
\<close>

definition decode_cpe22 :: "string \<Rightarrow> error + triple" where
  "decode_cpe22 cpe22 =
     (let cpe = str_split CHR '':'' cpe22
      in if length cpe < 5 then Inl IndexError
         else Inr (or_None (cpe ! 2), or_None (cpe ! 3), or_None (cpe ! 4)))"

definition decode_cpe23 :: "string \<Rightarrow> error + triple" where
  "decode_cpe23 cpe23 =
     (let cpe = str_split CHR '':'' cpe23
      in if length cpe < 6 then Inl IndexError
         else Inr (or_None (cpe ! 3), or_None (cpe ! 4), or_None (cpe ! 5)))"

text \<open>
  The two identifier layouts as the specification writes them:
  \<^verbatim>\<open>cpe:/[type]:vendor:product:version:...\<close> and
  \<^verbatim>\<open>cpe:2.3:part:vendor:product:version:...\<close>. \<open>rest\<close> holds the fields after the
  version.
\<close>

definition colon_fields :: "string list \<Rightarrow> string" where
  "colon_fields rest = concat (map (\<lambda>f. CHR '':'' # f) rest)"

definition cpe22_format :: "string \<Rightarrow> string \<Rightarrow> string \<Rightarrow> string \<Rightarrow> string list \<Rightarrow> string" where
  "cpe22_format part v p ver rest =
     ''cpe:/'' @ part @ '':'' @ v @ '':'' @ p @ '':'' @ ver @ colon_fields rest"

definition cpe23_format :: "string \<Rightarrow> string \<Rightarrow> string \<Rightarrow> string \<Rightarrow> string list \<Rightarrow> string" where
  "cpe23_format part v p ver rest =
     ''cpe:2.3:'' @ part @ '':'' @ v @ '':'' @ p @ '':'' @ ver @ colon_fields rest"

section \<open>Pattern matching: \<^verbatim>\<open>re.match\<close>\<close>

text \<open>
  The regular expressions of \<^verbatim>\<open>SBOMManager.is_valid_string\<close>, as syntax trees.
  \<open>Cls cs\<close> is a character class, \<open>Dot\<close> is \<^verbatim>\<open>.\<close> (any character but a newline),
  \<open>Eol\<close> is \<^verbatim>\<open>$\<close> (the end of the string, or just before a final newline).
\<close>

datatype rexp = Eps | Cls "char list" | Dot | Eol | Seq rexp rexp | Alt rexp rexp | Star rexp

text \<open>
  \<open>rmatch n r s\<close> lists what is left of \<open>s\<close> after each prefix of \<open>s\<close> that \<open>r\<close>
  matches. \<^verbatim>\<open>re.match(r, s)\<close> backtracks over all of them, so it is not \<open>None\<close>
  exactly when the list is not empty. A starred expression repeats while it consumes
  input; \<open>n\<close> bounds the repetitions and \<open>length s\<close> is enough.
\<close>

fun rmatch :: "nat \<Rightarrow> rexp \<Rightarrow> string \<Rightarrow> string list" where
  "rmatch n Eps s = [s]"
| "rmatch n (Cls cs) s = (case s of [] \<Rightarrow> [] | c # t \<Rightarrow> if c \<in> set cs then [t] else [])"
| "rmatch n Dot s = (case s of [] \<Rightarrow> [] | c # t \<Rightarrow> if c \<noteq> CHR 0x0A then [t] else [])"
| "rmatch n Eol s = (if s = [] \<or> s = [CHR 0x0A] then [s] else [])"
| "rmatch n (Seq a b) s = remdups (concat (map (rmatch n b) (rmatch n a s)))"
| "rmatch n (Alt a b) s = remdups (rmatch n a s @ rmatch n b s)"
| "rmatch 0 (Star a) s = [s]"
| "rmatch (Suc n) (Star a) s =
     remdups (s # concat (map (rmatch n (Star a))
                            (filter (\<lambda>t. length t < length s) (rmatch (Suc n) a s))))"

definition re_match :: "rexp \<Rightarrow> string \<Rightarrow> bool" where
  "re_match r s = (rmatch (length s) r s \<noteq> [])"

text \<open>\<^verbatim>\<open>r?\<close>, \<^verbatim>\<open>r+\<close>, \<^verbatim>\<open>r{n}\<close>, \<^verbatim>\<open>r{0,n}\<close> and a literal string.\<close>

definition Opt :: "rexp \<Rightarrow> rexp" where
  "Opt r = Alt r Eps"

definition Plus :: "rexp \<Rightarrow> rexp" where
  "Plus r = Seq r (Star r)"

fun Rep :: "nat \<Rightarrow> rexp \<Rightarrow> rexp" where
  "Rep 0 r = Eps"
| "Rep (Suc n) r = Seq r (Rep n r)"

fun RepUpto :: "nat \<Rightarrow> rexp \<Rightarrow> rexp" where
  "RepUpto 0 r = Eps"
| "RepUpto (Suc n) r = Opt (Seq r (RepUpto n r))"

fun Lit :: "string \<Rightarrow> rexp" where
  "Lit [] = Eps"
| "Lit (c # cs) = Seq (Cls [c]) (Lit cs)"

section \<open>\<^verbatim>\<open>SBOMManager.is_valid_string\<close>\<close>

datatype string_type = purl | cpe23 | cpe22

text \<open>
  \<^verbatim>\<open>^(?P<scheme>.+):(?P<type>.+)/(?P<namespace>.+)/(?P<name>.+)@(?P<version>.+)\??(?P<qualifiers>.*)#?(?P<subpath>.*)$\<close>
\<close>

definition purl_pattern :: rexp where
  "purl_pattern =
     Seq (Plus Dot) (Seq (Cls '':'') (Seq (Plus Dot) (Seq (Cls ''/'') (Seq (Plus Dot)
     (Seq (Cls ''/'') (Seq (Plus Dot) (Seq (Cls ''@'') (Seq (Plus Dot)
     (Seq (Opt (Cls ''?'')) (Seq (Star Dot) (Seq (Opt (Cls ''#'')) (Seq (Star Dot) Eol))))))))))))"

text \<open>
  One component of a CPE 2.3 string:
  \<^verbatim>\<open>((\?*|\*?)([a-zA-Z0-9\-\._]|(\\[\\\*\?\!\"#\$%&'\(\)\+,\-\.\/:;<=>@\[\]\^`\{\|}~]))+(\?*|\*?))|[\*\-]\<close>.
  \<open>CHR 0x5C\<close> is the backslash, \<open>CHR 0x22\<close> the double quote, \<open>CHR 0x27\<close> the
  single quote and \<open>CHR 0x60\<close> the backquote.
\<close>

definition cpe23_component :: rexp where
  "cpe23_component = Alt
     (Seq (Alt (Star (Cls ''?'')) (Opt (Cls ''*'')))
       (Seq (Plus (Alt (Cls (lower_letters @ upper_letters @ digit_chars @ ''-._''))
                       (Seq (Cls [CHR 0x5C])
                            (Cls ([CHR 0x5C, CHR 0x22, CHR 0x27, CHR 0x60]
                                   @ ''*?!#$%&()+,-./:;<=>@[]^{|}~'')))))
            (Alt (Star (Cls ''?'')) (Opt (Cls ''*'')))))
     (Cls ''*-'')"

text \<open>The language field: \<^verbatim>\<open>([a-zA-Z]{2,3}(-([a-zA-Z]{2}|[0-9]{3}))?)|[\*\-]\<close>.\<close>

definition cpe23_language :: rexp where
  "cpe23_language = Alt
     (Seq (Seq (Rep 2 (Cls (lower_letters @ upper_letters)))
               (RepUpto 1 (Cls (lower_letters @ upper_letters))))
          (Opt (Seq (Cls ''-'')
                    (Alt (Rep 2 (Cls (lower_letters @ upper_letters))) (Rep 3 (Cls digit_chars))))))
     (Cls ''*-'')"

text \<open>
  \<^verbatim>\<open>^cpe:2\.3:[aho\*\-](:component){5}(:language)(:component){4}\<close>
\<close>

definition cpe23_pattern :: rexp where
  "cpe23_pattern =
     Seq (Lit ''cpe:2.3:'') (Seq (Cls ''aho*-'')
     (Seq (Rep 5 (Seq (Cls '':'') cpe23_component))
     (Seq (Seq (Cls '':'') cpe23_language)
          (Rep 4 (Seq (Cls '':'') cpe23_component)))))"

text \<open>\<^verbatim>\<open>^[c][pP][eE]:/[AHOaho]?(:[A-Za-z0-9\._\-~%]*){0,6}\<close>\<close>

definition cpe22_pattern :: rexp where
  "cpe22_pattern =
     Seq (Cls ''c'') (Seq (Cls ''pP'') (Seq (Cls ''eE'') (Seq (Lit '':/'')
     (Seq (Opt (Cls ''AHOaho''))
          (RepUpto 6 (Seq (Cls '':'')
             (Star (Cls (upper_letters @ lower_letters @ digit_chars @ ''._-~%'')))))))))"

text \<open>
  \<open>is_valid_string\<close> is only called with the three type names \<^verbatim>\<open>"purl"\<close>,
  \<^verbatim>\<open>"cpe23"\<close> and \<^verbatim>\<open>"cpe22"\<close>.
\<close>

definition is_valid_string :: "string_type \<Rightarrow> string \<Rightarrow> bool" where
  "is_valid_string t ref_string =
     re_match (case t of purl \<Rightarrow> purl_pattern | cpe23 \<Rightarrow> cpe23_pattern | cpe22 \<Rightarrow> cpe22_pattern)
       ref_string"

section \<open>PurlCodec\<close>

text \<open>The first and the last occurrence of a separator: \<^verbatim>\<open>partition\<close>, \<^verbatim>\<open>rpartition\<close>.\<close>

definition partition_at :: "char \<Rightarrow> string \<Rightarrow> (string \<times> string) option" where
  "partition_at sep s =
     (if sep \<in> set s then Some (takeWhile (\<lambda>c. c \<noteq> sep) s, tl (dropWhile (\<lambda>c. c \<noteq> sep) s))
      else None)"

definition rpartition_at :: "char \<Rightarrow> string \<Rightarrow> (string \<times> string) option" where
  "rpartition_at sep s =
     (case partition_at sep (rev s) of
        None \<Rightarrow> None
      | Some (tail, front) \<Rightarrow> Some (rev front, rev tail))"

record package_url =
  purl_type :: string
  purl_namespace :: "string option"
  purl_name :: string
  purl_version :: "string option"
  purl_qualifiers :: "string option"
  purl_subpath :: "string option"

text \<open>
  Modelled from the spec: \<^verbatim>\<open>PackageURL.from_string\<close> of the packageurl library is not
  among the sources. The grammar is \<^verbatim>\<open>scheme:type/namespace/name@version?qualifiers#subpath\<close>
  with scheme \<^verbatim>\<open>pkg\<close> and the namespace, version, qualifiers and subpath optional: the
  subpath follows the last \<^verbatim>\<open>#\<close>, the qualifiers the last \<^verbatim>\<open>?\<close> before it, the
  scheme ends at the first \<^verbatim>\<open>:\<close>, the type at the next \<^verbatim>\<open>/\<close>, the version
  follows the last \<^verbatim>\<open>@\<close> and the name the last \<^verbatim>\<open>/\<close> of what remains. A string
  that does not fit is rejected (\<open>ValueError\<close>). Percent-encoding is not modelled.
\<close>

definition purl_from_string :: "string \<Rightarrow> error + package_url" where
  "purl_from_string s =
     (let (s1, subpath) = (case rpartition_at CHR ''#'' s of
                             None \<Rightarrow> (s, None) | Some (b, a) \<Rightarrow> (b, Some a));
          (s2, qualifiers) = (case rpartition_at CHR ''?'' s1 of
                             None \<Rightarrow> (s1, None) | Some (b, a) \<Rightarrow> (b, Some a))
      in case partition_at CHR '':'' s2 of
           None \<Rightarrow> Inl ValueError
         | Some (scheme, s3) \<Rightarrow>
             if scheme \<noteq> ''pkg'' then Inl ValueError
             else (case partition_at CHR ''/'' (dropWhile (\<lambda>c. c = CHR ''/'') s3) of
                     None \<Rightarrow> Inl ValueError
                   | Some (ty, s4) \<Rightarrow>
                       let (s5, version) = (case rpartition_at CHR ''@'' s4 of
                                              None \<Rightarrow> (s4, None) | Some (b, a) \<Rightarrow> (b, or_None a));
                           (namespace, name) = (case rpartition_at CHR ''/'' s5 of
                                              None \<Rightarrow> (None, s5) | Some (b, a) \<Rightarrow> (or_None b, a))
                       in if ty = [] \<or> name = [] then Inl ValueError
                          else Inr \<lparr>purl_type = ty, purl_namespace = namespace, purl_name = name,
                                    purl_version = version, purl_qualifiers = qualifiers,
                                    purl_subpath = subpath\<rparr>))"

text \<open>
  \<^verbatim>\<open>SBOMManager.decode_purl\<close>: vendor and product stay \<open>None\<close>, only the version of
  the parsed Package URL is returned (\<^verbatim>\<open>version or None\<close>).
\<close>

definition decode_purl :: "string \<Rightarrow> error + triple" where
  "decode_purl p =
     (case purl_from_string p of
        Inl e \<Rightarrow> Inl e
      | Inr purl_info \<Rightarrow>
          Inr (None, None, (case purl_version purl_info of None \<Rightarrow> None | Some v \<Rightarrow> or_None v)))"

text \<open>
  Modelled from the spec: \<^verbatim>\<open>Parser.generate_purl\<close> of the base class
  (\<^verbatim>\<open>cve_bin_tool/parsers/__init__.py\<close>) is not among the sources. It writes the Package URL of
  the parser's package type for a normalised product and version; the vendor is not
  embedded in the PURL body; qualifiers follow \<^verbatim>\<open>?\<close> and a subpath follows \<^verbatim>\<open>#\<close>.
\<close>

definition base_generate_purl ::
  "string \<Rightarrow> string \<Rightarrow> string \<Rightarrow> string \<Rightarrow> string \<Rightarrow> string option \<Rightarrow> string" where
  "base_generate_purl purl_pkg_type product version vendor qualifier subpath =
     ''pkg:'' @ purl_pkg_type @ ''/'' @ product @ ''@'' @ version
       @ (if qualifier = [] then [] else ''?'' @ qualifier)
       @ (case subpath of None \<Rightarrow> [] | Some sp \<Rightarrow> ''#'' @ sp)"

text \<open>
  \<^verbatim>\<open>JavascriptParser.generate_purl\<close>: \<^verbatim>\<open>re.sub(r"[^a-zA-Z0-9._-]", "", product).lower()\<close>,
  \<^verbatim>\<open>re.sub(r"[^a-zA-Z0-9.+\-]", "", version)\<close>, \<open>None\<close> when either is then empty.
\<close>

definition product_alphabet :: string where
  "product_alphabet = lower_letters @ upper_letters @ digit_chars @ ''._-''"

definition version_alphabet :: string where
  "version_alphabet = lower_letters @ upper_letters @ digit_chars @ ''.+-''"

definition generate_purl ::
  "string \<Rightarrow> string \<Rightarrow> string \<Rightarrow> string \<Rightarrow> string option \<Rightarrow> string option" where
  "generate_purl product version vendor qualifier subpath =
     (let product' = lower (filter (\<lambda>c. c \<in> set product_alphabet) product);
          version' = filter (\<lambda>c. c \<in> set version_alphabet) version;
          vendor' = ''UNKNOWN''
      in if product' = [] \<or> version' = [] then None
         else Some (base_generate_purl ''npm'' product' version' vendor' qualifier subpath))"

text \<open>The product alphabet without the upper-case letters: what a lower-cased product uses.\<close>

definition lowercase_product_alphabet :: string where
  "lowercase_product_alphabet = lower_letters @ digit_chars @ ''._-''"

section \<open>SbomIngestor: \<^verbatim>\<open>SBOMManager.parse_ext_ref\<close>, \<^verbatim>\<open>SBOMManager.parse_sbom\<close>\<close>

text \<open>An external reference is the list \<^verbatim>\<open>[category, type, locator]\<close>.\<close>

type_synonym ext_ref = "string \<times> string \<times> string"

text \<open>The dictionary \<^verbatim>\<open>decoded\<close>, with its three possible keys.\<close>

record decoded =
  cpe23Type :: "triple option"
  cpe22Type :: "triple option"
  purl_key :: "triple option"

definition decoded_empty :: decoded where
  "decoded_empty = \<lparr>cpe23Type = None, cpe22Type = None, purl_key = None\<rparr>"

text \<open>
  One turn of the loop over \<^verbatim>\<open>ext_ref\<close>: the \<^verbatim>\<open>if\<close>/\<^verbatim>\<open>elif\<close> chain on the
  reference type; a decoder that raises ends the loop.
\<close>

definition decode_ref :: "decoded \<Rightarrow> ext_ref \<Rightarrow> error + decoded" where
  "decode_ref d r =
     (let ref_type = fst (snd r); ref_string = snd (snd r)
      in if ref_type = ''cpe23Type'' \<and> is_valid_string cpe23 ref_string then
           (case decode_cpe23 ref_string of
              Inl e \<Rightarrow> Inl e | Inr t \<Rightarrow> Inr (d\<lparr>cpe23Type := Some t\<rparr>))
         else if ref_type = ''cpe22Type'' \<and> is_valid_string cpe22 ref_string then
           (case decode_cpe22 ref_string of
              Inl e \<Rightarrow> Inl e | Inr t \<Rightarrow> Inr (d\<lparr>cpe22Type := Some t\<rparr>))
         else if ref_type = ''purl'' \<and> is_valid_string purl ref_string then
           (case decode_purl ref_string of
              Inl e \<Rightarrow> Inl e | Inr t \<Rightarrow> Inr (d\<lparr>purl_key := Some t\<rparr>))
         else Inr d)"

fun decode_refs :: "decoded \<Rightarrow> ext_ref list \<Rightarrow> error + decoded" where
  "decode_refs d [] = Inr d"
| "decode_refs d (r # rs) =
     (case decode_ref d r of Inl e \<Rightarrow> Inl e | Inr d' \<Rightarrow> decode_refs d' rs)"

text \<open>
  \<^verbatim>\<open>decoded.get("cpe23Type", decoded.get("cpe22Type", decoded.get("purl", (None, None, None))))\<close>
\<close>

definition preferred :: "decoded \<Rightarrow> triple" where
  "preferred d =
     (case cpe23Type d of
        Some t \<Rightarrow> t
      | None \<Rightarrow> (case cpe22Type d of
                   Some t \<Rightarrow> t
                 | None \<Rightarrow> (case purl_key d of Some t \<Rightarrow> t | None \<Rightarrow> (None, None, None))))"

definition parse_ext_ref :: "ext_ref list \<Rightarrow> error + triple" where
  "parse_ext_ref ext_ref =
     (case decode_refs decoded_empty ext_ref of Inl e \<Rightarrow> Inl e | Inr d \<Rightarrow> Inr (preferred d))"

text \<open>
  A package entry of the parsed SBOM: \<open>None\<close> is a key that is missing (or, for
  \<^verbatim>\<open>.get\<close>, holds \<^verbatim>\<open>None\<close>).
\<close>

record package =
  externalreference :: "ext_ref list option"
  pkg_name :: "string option"
  pkg_version :: "string option"

text \<open>A module is the list \<^verbatim>\<open>[vendor, package_name, version]\<close>.\<close>

type_synonym module = "string option \<times> string \<times> string"

text \<open>
  The body of the loop over the packages: \<open>Inr None\<close> when the package adds no module.
  \<^verbatim>\<open>package["name"]\<close> raises \<open>KeyError\<close> when the key is missing.
\<close>

definition parse_package :: "package \<Rightarrow> error + module option" where
  "parse_package package =
     (case (case externalreference package of
              None \<Rightarrow> Inr (None, None, None)
            | Some ext_ref \<Rightarrow> parse_ext_ref ext_ref) of
        Inl e \<Rightarrow> Inl e
      | Inr (vendor, package_name, version) \<Rightarrow>
          (case (if falsy package_name then
                   (case pkg_name package of None \<Rightarrow> Inl KeyError | Some n \<Rightarrow> Inr n)
                 else Inr (the package_name)) of
             Inl e \<Rightarrow> Inl e
           | Inr package_name' \<Rightarrow>
               let version' = (if falsy version \<and> pkg_version package \<noteq> None
                               then pkg_version package else version)
               in if \<not> falsy version' then Inr (Some (vendor, package_name', the version'))
                  else Inr None))"

fun parse_packages :: "package list \<Rightarrow> error + module list" where
  "parse_packages [] = Inr []"
| "parse_packages (p # ps) =
     (case parse_package p of
        Inl e \<Rightarrow> Inl e
      | Inr m \<Rightarrow> (case parse_packages ps of
                   Inl e \<Rightarrow> Inl e
                 | Inr ms \<Rightarrow> Inr ((case m of None \<Rightarrow> [] | Some x \<Rightarrow> [x]) @ ms)))"

text \<open>
  What the manager meets outside itself: whether the file exists, what the lib4sbom
  parser does with it (\<open>Inl\<close>: \<^verbatim>\<open>parse_file\<close> raises; \<open>Inr None\<close>: the parsed document
  has no \<^verbatim>\<open>"packages"\<close> key; \<open>Inr (Some ps)\<close>: its packages in order), the document
  type the parser reports, the verdicts of the two schema validators and what the
  SWID parser returns.
\<close>

record environment =
  path_exists :: bool
  parse_file :: "error + package list option"
  get_type :: string
  validate_spdx :: bool
  validate_cyclonedx :: bool
  swid_parse :: "error + module list"

definition parse_sbom :: "environment \<Rightarrow> string \<Rightarrow> bool \<Rightarrow> error + module list" where
  "parse_sbom env filename validate =
     (case parse_file env of
        Inl e \<Rightarrow> Inl e
      | Inr packages \<Rightarrow>
          if validate \<and> endswith filename ''.xml''
             \<and> \<not> (if get_type env = ''spdx'' then validate_spdx env else validate_cyclonedx env)
          then Inr []
          else (case packages of
                  None \<Rightarrow> Inl KeyError
                | Some ps \<Rightarrow> parse_packages ps))"

section \<open>Vendor lookup: \<^verbatim>\<open>SBOMManager.get_vendor\<close>, \<^verbatim>\<open>SBOMManager.common_prefix_split\<close>\<close>

record 'v ProductInfo =
  vendor :: string
  product :: string
  version :: 'v

text \<open>
  The IdentityIndex, \<^verbatim>\<open>cvedb.get_vendor_product_pairs\<close>: the vendor/product pairs known
  for a product name, in the order the database returns them.
\<close>

type_synonym cvedb = "string \<Rightarrow> (string \<times> string) list"

definition get_vendor :: "cvedb \<Rightarrow> string \<Rightarrow> string list" where
  "get_vendor db p =
     (let vendor_package_pair = db p
      in if vendor_package_pair \<noteq> [] then map fst vendor_package_pair else [''UNKNOWN''])"

definition common_prefix :: "string list" where
  "common_prefix = [''perl-'', ''golang-'', ''rubygem-'', ''python-'', ''py3-'', ''python3-'',
                    ''python2-'', ''rust-'', ''nodejs-'']"

text \<open>
  \<^verbatim>\<open>len(vs) > 1 or (len(vs) == 1 and vs[0] != "UNKNOWN")\<close>
\<close>

definition found_vendor :: "string list \<Rightarrow> bool" where
  "found_vendor vs = (length vs > 1 \<or> (length vs = 1 \<and> hd vs \<noteq> ''UNKNOWN''))"

definition common_prefix_split :: "cvedb \<Rightarrow> string \<Rightarrow> 'v \<Rightarrow> 'v ProductInfo list" where
  "common_prefix_split db p ver =
     (let parsed_data =
            (case find (startswith p) common_prefix of
               None \<Rightarrow> []
             | Some pre \<Rightarrow>
                 let common_prefix_product = drop (length pre) p;
                     common_prefix_vendor = get_vendor db common_prefix_product
                 in if found_vendor common_prefix_vendor
                    then map (\<lambda>v. \<lparr>vendor = v, product = common_prefix_product, version = ver\<rparr>)
                           common_prefix_vendor
                    else []);
          found_common_prefix =
            (case find (startswith p) common_prefix of
               None \<Rightarrow> False
             | Some pre \<Rightarrow> found_vendor (get_vendor db (drop (length pre) p)))
      in if \<not> found_common_prefix then
           parsed_data @ concat (map (\<lambda>sp. let temp = get_vendor db sp
                                      in if found_vendor temp
                                         then map (\<lambda>v. \<lparr>vendor = v, product = sp, version = ver\<rparr>) temp
                                         else [])
                                 (str_split CHR ''-'' p))
         else parsed_data)"

section \<open>\<^verbatim>\<open>SBOMManager.scan_file\<close>\<close>

datatype remarks = NewFound

record TriageData =
  default_remarks :: remarks
  default_comments :: string
  default_severity :: string
  paths :: "string set"

text \<open>
  What \<open>scan_file\<close> stores for each row: \<^verbatim>\<open>"".split(",")\<close> is \<^verbatim>\<open>[""]\<close>, so the
  paths are the one empty string.
\<close>

definition new_triage :: TriageData where
  "new_triage = \<lparr>default_remarks = NewFound, default_comments = [], default_severity = [],
                 paths = {[]}\<rparr>"

record manager =
  filename :: string
  sbom_type :: string
  validate :: bool
  sbom_data :: "string ProductInfo \<rightharpoonup> TriageData"

text \<open>\<^verbatim>\<open>SBOMManager.__init__\<close>: a type outside \<^verbatim>\<open>SBOMtype\<close> becomes \<^verbatim>\<open>"unknown"\<close>.\<close>

definition init_manager :: "string \<Rightarrow> string \<Rightarrow> bool \<Rightarrow> manager" where
  "init_manager file ty val =
     \<lparr>filename = file,
      sbom_type = (if ty \<in> set [''spdx'', ''cyclonedx'', ''swid''] then ty else ''unknown''),
      validate = val, sbom_data = Map.empty\<rparr>"

text \<open>
  The \<^verbatim>\<open>try\<close> block: \<open>KeyError\<close>, \<open>FileNotFoundError\<close> and the XML \<open>ParseError\<close> are
  caught and leave \<^verbatim>\<open>modules = []\<close>; any other exception leaves \<open>scan_file\<close>.
\<close>

definition read_modules :: "environment \<Rightarrow> manager \<Rightarrow> error + module list" where
  "read_modules env m =
     (case (if path_exists env then
              (if sbom_type m = ''swid'' then swid_parse env
               else parse_sbom env (filename m) (validate m))
            else Inr []) of
        Inl e \<Rightarrow> (if e \<in> {KeyError, FileNotFoundError, ParseError} then Inr [] else Inl e)
      | Inr modules \<Rightarrow> Inr modules)"

text \<open>The loop that turns the modules into rows of \<^verbatim>\<open>parsed_data\<close>.\<close>

definition module_rows :: "cvedb \<Rightarrow> module \<Rightarrow> string ProductInfo list" where
  "module_rows db md =
     (case md of (module_vendor, p, ver) \<Rightarrow>
        let p' = lower p
        in (case module_vendor of
              None \<Rightarrow> map (\<lambda>v. \<lparr>vendor = v, product = p', version = ver\<rparr>) (get_vendor db p')
            | Some mv \<Rightarrow> [\<lparr>vendor = mv, product = p', version = ver\<rparr>]))"

definition parsed_rows :: "cvedb \<Rightarrow> module list \<Rightarrow> string ProductInfo list" where
  "parsed_rows db modules = concat (map (module_rows db) modules)"

fun store_rows ::
  "(string ProductInfo \<rightharpoonup> TriageData) \<Rightarrow> string ProductInfo list
     \<Rightarrow> (string ProductInfo \<rightharpoonup> TriageData)" where
  "store_rows data [] = data"
| "store_rows data (row # rows) = store_rows (data(row \<mapsto> new_triage)) rows"

text \<open>\<open>scan_file\<close> returns \<^verbatim>\<open>self.sbom_data\<close>, updated in place.\<close>

definition scan_file :: "cvedb \<Rightarrow> environment \<Rightarrow> manager \<Rightarrow> error + (string ProductInfo \<rightharpoonup> TriageData)" where
  "scan_file db env m =
     (case read_modules env m of
        Inl e \<Rightarrow> Inl e
      | Inr modules \<Rightarrow> Inr (store_rows (sbom_data m) (parsed_rows db modules)))"

section \<open>npm lock files: \<^verbatim>\<open>JavascriptParser.run_checker\<close>\<close>

text \<open>
  The value \<^verbatim>\<open>json.load\<close> returns. An object is the list of its items in file order,
  with distinct keys; numbers are the integers; \<open>JNull\<close> is Python's \<open>None\<close>.
\<close>

datatype json =
  JNull | JBool bool | JNum int | JStr string | JArr "json list" | JObj "(string \<times> json) list"

text \<open>\<^verbatim>\<open>d.get(k)\<close>: \<open>None\<close> for a missing key.\<close>

definition dict_get :: "(string \<times> json) list \<Rightarrow> string \<Rightarrow> json" where
  "dict_get d k = (case map_of d k of None \<Rightarrow> JNull | Some v \<Rightarrow> v)"

text \<open>Truth value of a JSON value in an \<^verbatim>\<open>if\<close>.\<close>

fun truthy :: "json \<Rightarrow> bool" where
  "truthy JNull = False"
| "truthy (JBool b) = b"
| "truthy (JNum n) = (n \<noteq> 0)"
| "truthy (JStr s) = (s \<noteq> [])"
| "truthy (JArr xs) = (xs \<noteq> [])"
| "truthy (JObj d) = (d \<noteq> [])"

text \<open>\<^verbatim>\<open>name.split("/")[-1] if "/" in name else name\<close>\<close>

definition get_package_name :: "string \<Rightarrow> string" where
  "get_package_name name =
     (if CHR ''/'' \<in> set name then last (str_split CHR ''/'' name) else name)"

text \<open>
  The loop over \<^verbatim>\<open>.get("requires", {}).items()\<close>: an entry whose value is \<^verbatim>\<open>"*"\<close> is
  passed over. \<^verbatim>\<open>.items()\<close> on a value that is not an object raises \<open>AttributeError\<close>.
\<close>

definition requires_pairs :: "(string \<times> json) list \<Rightarrow> (string \<times> json) list" where
  "requires_pairs reqs =
     map (\<lambda>(n, v). (get_package_name n, v)) (filter (\<lambda>(n, v). v \<noteq> JStr ''*'') reqs)"

definition requires_of :: "(string \<times> json) list \<Rightarrow> error + (string \<times> json) list" where
  "requires_of d =
     (case map_of d ''requires'' of
        None \<Rightarrow> Inr []
      | Some (JObj reqs) \<Rightarrow> Inr (requires_pairs reqs)
      | Some _ \<Rightarrow> Inl AttributeError)"

text \<open>
  \<^verbatim>\<open>lockfileVersion >= 2\<close>: the loop over \<^verbatim>\<open>data["packages"].items()\<close>. An entry
  that is not an object has no \<^verbatim>\<open>.get\<close> (\<open>AttributeError\<close>).
\<close>

fun packages_loop :: "(string \<times> json) list \<Rightarrow> error + (string \<times> json) list" where
  "packages_loop [] = Inr []"
| "packages_loop ((package_name, package_dependency) # rest) =
     (case package_dependency of
        JObj d \<Rightarrow>
          (case requires_of d of
             Inl e \<Rightarrow> Inl e
           | Inr reqs \<Rightarrow>
               (case packages_loop rest of
                  Inl e \<Rightarrow> Inl e
                | Inr ps \<Rightarrow>
                    Inr ((get_package_name package_name, dict_get d ''version'') # reqs @ ps)))
      | _ \<Rightarrow> Inl AttributeError)"

text \<open>
  The older layout: the loop over \<^verbatim>\<open>data["dependencies"]\<close>. The version is
  \<^verbatim>\<open>entry["version"]\<close>, or the entry itself when that raises (the
  \<^verbatim>\<open>except Exception\<close> branch); then \<^verbatim>\<open>entry.get("requires", {})\<close> is read, which
  raises \<open>AttributeError\<close> for an entry that is not an object.
\<close>

definition legacy_version :: "json \<Rightarrow> json" where
  "legacy_version entry =
     (case entry of
        JObj d \<Rightarrow> (case map_of d ''version'' of None \<Rightarrow> entry | Some v \<Rightarrow> v)
      | _ \<Rightarrow> entry)"

fun dependencies_loop :: "(string \<times> json) list \<Rightarrow> error + (string \<times> json) list" where
  "dependencies_loop [] = Inr []"
| "dependencies_loop ((i, entry) # rest) =
     (let pair = (get_package_name i, legacy_version entry)
      in case entry of
           JObj d \<Rightarrow>
             (case requires_of d of
                Inl e \<Rightarrow> Inl e
              | Inr reqs \<Rightarrow>
                  (case dependencies_loop rest of
                     Inl e \<Rightarrow> Inl e
                   | Inr ps \<Rightarrow> Inr (pair # reqs @ ps)))
         | _ \<Rightarrow> Inl AttributeError)"

text \<open>
  \<^verbatim>\<open>for i in data["dependencies"]\<close> when the value is not an object: an empty list or
  string gives no turn of the loop; a number, a boolean or \<open>None\<close> cannot be iterated;
  otherwise the first element fails in \<open>get_package_name\<close> or at
  \<^verbatim>\<open>data["dependencies"][i]\<close>.
\<close>

definition iterate_non_object :: "json \<Rightarrow> error + (string \<times> json) list" where
  "iterate_non_object deps =
     (case deps of
        JArr [] \<Rightarrow> Inr []
      | JStr [] \<Rightarrow> Inr []
      | JArr (JArr ys # _) \<Rightarrow> if JStr ''/'' \<in> set ys then Inl AttributeError else Inl TypeError
      | JArr (JObj d # _) \<Rightarrow> if ''/'' \<in> fst ` set d then Inl AttributeError else Inl TypeError
      | _ \<Rightarrow> Inl TypeError)"

text \<open>
  The list \<^verbatim>\<open>product_version_mapping\<close> that \<open>run_checker\<close> builds from the loaded
  object \<open>data\<close>. \<^verbatim>\<open>data.get("lockfileVersion", 0) >= 2\<close> compares a number (a boolean
  counts as 0 or 1) and raises \<open>TypeError\<close> on a string, a list or an object.
\<close>

definition product_version_mapping :: "(string \<times> json) list \<Rightarrow> error + (string \<times> json) list" where
  "product_version_mapping data =
     (if truthy (dict_get data ''lockfileVersion'') then
        (case (case dict_get data ''lockfileVersion'' of
                 JNum n \<Rightarrow> Inr (n \<ge> 2)
               | JBool b \<Rightarrow> Inr False
               | _ \<Rightarrow> Inl TypeError) of
           Inl e \<Rightarrow> Inl e
         | Inr True \<Rightarrow>
             (case map_of data ''packages'' of
                None \<Rightarrow> Inl KeyError
              | Some (JObj ps) \<Rightarrow> packages_loop ps
              | Some _ \<Rightarrow> Inl AttributeError)
         | Inr False \<Rightarrow>
             (case map_of data ''dependencies'' of
                None \<Rightarrow> Inl KeyError
              | Some (JObj deps) \<Rightarrow> dependencies_loop deps
              | Some other \<Rightarrow> iterate_non_object other))
      else Inr [])"

text \<open>
  \<open>run_checker\<close> is a generator: it yields what \<open>find_vendor\<close> returns for the name and
  version of the lock file itself, builds \<open>product_version_mapping\<close>, then yields what
  \<open>find_vendor\<close> returns for each pair. The result is what was yielded and the
  exception that ended the generator, if any. \<^verbatim>\<open>Parser.find_vendor\<close> is not among the sources
  and is a parameter here; it returns \<open>None\<close> or a list of records.
\<close>

definition yield_from :: "'r list option \<Rightarrow> 'r list" where
  "yield_from found = (case found of None \<Rightarrow> [] | Some rs \<Rightarrow> rs)"

definition run_checker ::
  "(json \<Rightarrow> json \<Rightarrow> 'r list option) \<Rightarrow> (string \<times> json) list \<Rightarrow> 'r list \<times> error option" where
  "run_checker find_vendor data =
     (let vendor = (if ''name'' \<in> fst ` set data \<and> ''version'' \<in> fst ` set data
                    then find_vendor (dict_get data ''name'') (dict_get data ''version'')
                    else None)
      in case product_version_mapping data of
           Inl e \<Rightarrow> (yield_from vendor, Some e)
         | Inr pvm \<Rightarrow>
             (yield_from vendor
                @ concat (map (\<lambda>(p, ver). yield_from (find_vendor (JStr p) ver)) pvm),
              None))"

text \<open>
  Modelled from the spec: the VendorResolver that \<^verbatim>\<open>Parser.find_vendor\<close> stands for
  (\<^verbatim>\<open>cve_bin_tool/parsers/__init__.py\<close> is not among the sources). For a fragment
  without a vendor hint: one record per vendor the index has for the product; if
  none, the known prefix is stripped and the name queried again, then the
  hyphen-separated segments; if every fallback fails, a single record with vendor
  \<^verbatim>\<open>UNKNOWN\<close>.
\<close>

definition resolve :: "cvedb \<Rightarrow> string \<Rightarrow> 'v \<Rightarrow> 'v ProductInfo list" where
  "resolve db p ver =
     (if db p \<noteq> [] then map (\<lambda>(v, _). \<lparr>vendor = v, product = p, version = ver\<rparr>) (db p)
      else (case common_prefix_split db p ver of
              [] \<Rightarrow> [\<lparr>vendor = ''UNKNOWN'', product = p, version = ver\<rparr>]
            | rs \<Rightarrow> rs))"

text \<open>
  Modelled from the spec: \<^verbatim>\<open>Parser.find_vendor\<close>, which is not among the sources, as
  the resolver on a product name; a product that is not a string has no entry.
\<close>

definition find_vendor :: "cvedb \<Rightarrow> json \<Rightarrow> json \<Rightarrow> json ProductInfo list option" where
  "find_vendor db p ver = (case p of JStr s \<Rightarrow> Some (resolve db s ver) | _ \<Rightarrow> None)"

section \<open>Python metadata files: \<^verbatim>\<open>PythonParser.run_checker\<close>\<close>

text \<open>
  \<^verbatim>\<open>search(compile(r"^Name: (.+)$", MULTILINE), lines).group(1)\<close> over the joined lines:
  the rest of the first line that starts with the key and goes on; \<open>None\<close> when no
  line does (\<^verbatim>\<open>.group\<close> then raises \<open>AttributeError\<close>, which \<open>run_checker\<close> catches).
\<close>

definition search_field :: "string \<Rightarrow> string list \<Rightarrow> string option" where
  "search_field key lines =
     (case find (\<lambda>l. startswith l key \<and> length key < length l) lines of
        None \<Rightarrow> None
      | Some l \<Rightarrow> Some (drop (length key) l))"

record ScanInfo =
  product_info :: "string ProductInfo"
  file_path :: string

text \<open>
  \<open>lines\<close> is \<^verbatim>\<open>parse_strings(filename).splitlines()\<close> (\<^verbatim>\<open>parse_strings\<close> is not among the
  sources); the first three are searched. The result is what the generator yields.
\<close>

definition python_run_checker :: "cvedb \<Rightarrow> string \<Rightarrow> string list \<Rightarrow> ScanInfo list" where
  "python_run_checker db file lines =
     (let lines3 = take 3 lines
      in case search_field ''Name: '' lines3 of
           None \<Rightarrow> []
         | Some p \<Rightarrow>
             (case search_field ''Version: '' lines3 of
                None \<Rightarrow> []
              | Some ver \<Rightarrow>
                  let vendor_package_pair = db p
                  in if vendor_package_pair \<noteq> []
                     then map (\<lambda>pair. \<lparr>product_info = \<lparr>vendor = fst pair, product = p, version = ver\<rparr>,
                                       file_path = file\<rparr>) vendor_package_pair
                     else []))"

section \<open>Valid lock files of schema 2 and later\<close>





section \<open>The preference order in the specification's words\<close>






section \<open>Theorems\<close>

subsection \<open>CPE decoding\<close>

lemma str_split_nonempty: "str_split sep s \<noteq> []"
  by (induction s) (auto split: list.splits)

lemma str_split_field:
  "sep \<notin> set f \<Longrightarrow> str_split sep (f @ sep # s) = f # str_split sep s"
  by (induction f) auto

lemma str_split_last_field:
  "sep \<notin> set f \<Longrightarrow> str_split sep f = [f]"
  by (induction f) auto

lemma str_split_head:
  assumes "CHR '':'' \<notin> set f"
  shows "\<exists>ws. str_split CHR '':'' (f @ colon_fields rest) = f # ws"
proof (cases rest)
  case Nil
  then show ?thesis using assms by (simp add: colon_fields_def str_split_last_field)
next
  case (Cons m ms)
  then have "f @ colon_fields rest = f @ CHR '':'' # (m @ colon_fields ms)"
    by (simp add: colon_fields_def)
  then show ?thesis using assms by (simp add: str_split_field)
qed

lemma decode_cpe22_format:
  assumes "CHR '':'' \<notin> set part" "CHR '':'' \<notin> set v" "CHR '':'' \<notin> set p"
    "CHR '':'' \<notin> set ver"
  shows "decode_cpe22 (cpe22_format part v p ver rest) = Inr (or_None v, or_None p, or_None ver)"
proof -
  obtain ws where ws: "str_split CHR '':'' (ver @ colon_fields rest) = ver # ws"
    using str_split_head [OF assms(4)] by blast
  have "str_split CHR '':'' (cpe22_format part v p ver rest)
      = ''cpe'' # (''/'' @ part) # v # p # str_split CHR '':'' (ver @ colon_fields rest)"
    using assms(1,2,3)
      str_split_field [of "CHR '':''" "''cpe''" "''/'' @ part @ '':'' @ v @ '':'' @ p @ '':'' @ ver @ colon_fields rest"]
      str_split_field [of "CHR '':''" "''/'' @ part" "v @ '':'' @ p @ '':'' @ ver @ colon_fields rest"]
      str_split_field [of "CHR '':''" v "p @ '':'' @ ver @ colon_fields rest"]
      str_split_field [of "CHR '':''" p "ver @ colon_fields rest"]
    by (simp add: cpe22_format_def)
  then show ?thesis
    by (simp add: decode_cpe22_def ws)
qed

lemma decode_cpe23_format:
  assumes "CHR '':'' \<notin> set part" "CHR '':'' \<notin> set v" "CHR '':'' \<notin> set p"
    "CHR '':'' \<notin> set ver"
  shows "decode_cpe23 (cpe23_format part v p ver rest) = Inr (or_None v, or_None p, or_None ver)"
proof -
  obtain ws where ws: "str_split CHR '':'' (ver @ colon_fields rest) = ver # ws"
    using str_split_head [OF assms(4)] by blast
  have "str_split CHR '':'' (cpe23_format part v p ver rest)
      = ''cpe'' # ''2.3'' # part # v # p # str_split CHR '':'' (ver @ colon_fields rest)"
    using assms(1,2,3)
      str_split_field [of "CHR '':''" "''cpe''" "''2.3:'' @ part @ '':'' @ v @ '':'' @ p @ '':'' @ ver @ colon_fields rest"]
      str_split_field [of "CHR '':''" "''2.3''" "part @ '':'' @ v @ '':'' @ p @ '':'' @ ver @ colon_fields rest"]
      str_split_field [of "CHR '':''" part "v @ '':'' @ p @ '':'' @ ver @ colon_fields rest"]
      str_split_field [of "CHR '':''" v "p @ '':'' @ ver @ colon_fields rest"]
      str_split_field [of "CHR '':''" p "ver @ colon_fields rest"]
    by (simp add: cpe23_format_def)
  then show ?thesis
    by (simp add: decode_cpe23_def ws)
qed

text \<open>
  C2. \<open>decode_cpe22\<close> splits on \<open>:\<close> and reads fields 2, 3, 4; \<open>decode_cpe23\<close> reads
  fields 3, 4, 5; an empty field is reported as \<open>None\<close>. For a vendor, product and
  version without \<open>:\<close>, written in the CPE 2.2 layout and in the CPE 2.3 layout, both
  decoders return the same triple. The CPE 2.3 string of nasm 2.15 decodes to vendor
  \<open>nasm\<close>, product \<open>netwide_assembler\<close>, version \<open>2.15\<close>.
\<close>

theorem cpe_decoders_agree:
  assumes "CHR '':'' \<notin> set part" and "CHR '':'' \<notin> set v" and "CHR '':'' \<notin> set p"
    and "CHR '':'' \<notin> set ver"
  shows "decode_cpe22 s =
           (let cpe = str_split CHR '':'' s
            in if length cpe < 5 then Inl IndexError
               else Inr (or_None (cpe ! 2), or_None (cpe ! 3), or_None (cpe ! 4)))
       \<and> decode_cpe23 s =
           (let cpe = str_split CHR '':'' s
            in if length cpe < 6 then Inl IndexError
               else Inr (or_None (cpe ! 3), or_None (cpe ! 4), or_None (cpe ! 5)))
       \<and> or_None [] = None
       \<and> decode_cpe22 (cpe22_format part v p ver rest22) = Inr (or_None v, or_None p, or_None ver)
       \<and> decode_cpe23 (cpe23_format part v p ver rest23) = decode_cpe22 (cpe22_format part v p ver rest22)
       \<and> decode_cpe23 ''cpe:2.3:a:nasm:netwide_assembler:2.15:*:*:*:*:*:*:*''
           = Inr (Some ''nasm'', Some ''netwide_assembler'', Some ''2.15'')"
proof -
  have ex: "decode_cpe23 ''cpe:2.3:a:nasm:netwide_assembler:2.15:*:*:*:*:*:*:*''
           = Inr (Some ''nasm'', Some ''netwide_assembler'', Some ''2.15'')"
    by (simp add: decode_cpe23_def or_None_def)
  show ?thesis
    using decode_cpe22_format [OF assms, of rest22] decode_cpe23_format [OF assms, of rest23] ex
    by (simp add: decode_cpe22_def decode_cpe23_def or_None_def)
qed

theorem cpe_decoders_agree_witness:
  "decode_cpe22 ''cpe:/a:nasm:netwide_assembler:2.15''
     = Inr (Some ''nasm'', Some ''netwide_assembler'', Some ''2.15'')
   \<and> decode_cpe23 ''cpe:2.3:a:nasm:netwide_assembler::*:*''
     = decode_cpe22 ''cpe:/a:nasm:netwide_assembler:''
   \<and> decode_cpe22 ''cpe:/a:nasm:netwide_assembler:'' = Inr (Some ''nasm'', Some ''netwide_assembler'', None)"
proof -
  have c: "CHR '':'' \<notin> set ''a''" "CHR '':'' \<notin> set ''nasm''"
    "CHR '':'' \<notin> set ''netwide_assembler''" "CHR '':'' \<notin> set ''2.15''" "CHR '':'' \<notin> set ''''"
    by simp_all
  show ?thesis
    using cpe_decoders_agree [OF c(1) c(2) c(3) c(4), of "''''" "[]" "[]"]
      cpe_decoders_agree [OF c(1) c(2) c(3) c(5), of "''''" "[]" "[''*'', ''*'']"]
    by (simp add: cpe22_format_def cpe23_format_def colon_fields_def or_None_def)
qed

subsection \<open>SBOM ingestion: the preference order\<close>












lemma or_None_Some: "or_None a = Some b \<Longrightarrow> b \<noteq> []"
  by (auto simp: or_None_def split: if_splits)














text \<open>
  The theorem asks that the references decode because a locator can pass
  \<open>is_valid_string\<close> and still be too short for its decoder: the CPE 2.2 pattern
  accepts a string with no field after the part, and \<open>decode_cpe22\<close> then raises
  \<open>IndexError\<close>, which ends \<open>parse_ext_ref\<close>.
\<close>

lemma short_cpe22_raises:
  "is_valid_string cpe22 ''cpe:/a''
   \<and> decode_cpe22 ''cpe:/a'' = Inl IndexError
   \<and> parse_ext_ref [(''SECURITY'', ''cpe22Type'', ''cpe:/a'')] = Inl IndexError"
  by code_simp

subsection \<open>SBOM ingestion: errors and validation\<close>

lemma dom_store_rows: "dom (store_rows data rows) = dom data \<union> set rows"
  by (induction rows arbitrary: data) auto



lemma read_modules_swallows:
  assumes "\<not> path_exists env
           \<or> (if sbom_type m = ''swid'' then swid_parse env
               else parse_sbom env (filename m) (validate m))
              \<in> {Inl KeyError, Inl FileNotFoundError, Inl ParseError}"
  shows "read_modules env m = Inr []"
  using assms by (auto simp: read_modules_def split: sum.splits if_splits)

text \<open>
  C10. When the file does not exist, or when the parse raises \<open>KeyError\<close>,
  \<open>FileNotFoundError\<close> or the XML \<open>ParseError\<close>, \<open>scan_file\<close> does not raise: it
  returns its mapping with nothing added, which is the empty mapping for a manager
  that has not scanned before.
\<close>

theorem scan_file_swallows_errors:
  assumes "\<not> path_exists env
           \<or> (if sbom_type m = ''swid'' then swid_parse env
               else parse_sbom env (filename m) (validate m))
              \<in> {Inl KeyError, Inl FileNotFoundError, Inl ParseError}"
  shows "scan_file db env m = Inr (sbom_data m)
       \<and> scan_file db env (m\<lparr>sbom_data := Map.empty\<rparr>) = Inr Map.empty"
proof -
  have "read_modules env (m\<lparr>sbom_data := Map.empty\<rparr>) = read_modules env m"
    by (simp add: read_modules_def)
  then show ?thesis
    using read_modules_swallows [OF assms]
    by (simp add: scan_file_def parsed_rows_def)
qed

theorem scan_file_swallows_errors_witness:
  "scan_file (\<lambda>p. [(''facebook'', p)])
     \<lparr>path_exists = False, parse_file = Inr (Some []), get_type = ''spdx'', validate_spdx = True,
      validate_cyclonedx = True, swid_parse = Inr []\<rparr>
     (init_manager ''missing.spdx'' ''spdx'' True) = Inr Map.empty
   \<and> scan_file (\<lambda>p. [(''facebook'', p)])
     \<lparr>path_exists = True, parse_file = Inl ParseError, get_type = ''spdx'', validate_spdx = True,
      validate_cyclonedx = True, swid_parse = Inr []\<rparr>
     (init_manager ''broken.xml'' ''cyclonedx'' True) = Inr Map.empty
   \<and> scan_file (\<lambda>p. [(''facebook'', p)])
     \<lparr>path_exists = True, parse_file = Inr None, get_type = ''spdx'', validate_spdx = True,
      validate_cyclonedx = True, swid_parse = Inl KeyError\<rparr>
     (init_manager ''sbom.json'' ''spdx'' False) = Inr Map.empty"
  using
    scan_file_swallows_errors [of
      "\<lparr>path_exists = False, parse_file = Inr (Some []), get_type = ''spdx'', validate_spdx = True,
        validate_cyclonedx = True, swid_parse = Inr []\<rparr>"
      "init_manager ''missing.spdx'' ''spdx'' True" "\<lambda>p. [(''facebook'', p)]"]
    scan_file_swallows_errors [of
      "\<lparr>path_exists = True, parse_file = Inl ParseError, get_type = ''spdx'', validate_spdx = True,
        validate_cyclonedx = True, swid_parse = Inr []\<rparr>"
      "init_manager ''broken.xml'' ''cyclonedx'' True" "\<lambda>p. [(''facebook'', p)]"]
    scan_file_swallows_errors [of
      "\<lparr>path_exists = True, parse_file = Inr None, get_type = ''spdx'', validate_spdx = True,
        validate_cyclonedx = True, swid_parse = Inl KeyError\<rparr>"
      "init_manager ''sbom.json'' ''spdx'' False" "\<lambda>p. [(''facebook'', p)]"]
  by (simp add: init_manager_def parse_sbom_def endswith_def)

text \<open>
  C9. For an SPDX or CycloneDX document whose name ends in \<^verbatim>\<open>.xml\<close>, with validation
  enabled: when the parser has read the file and the schema validator rejects it,
  \<open>parse_sbom\<close> returns no module at all, and \<open>scan_file\<close> adds no record: its
  result is the mapping it started with, empty for a new manager.
\<close>

theorem validation_failure_empty:
  assumes "validate m" and "endswith (filename m) ''.xml''" and "sbom_type m \<noteq> ''swid''"
    and "parse_file env = Inr packages"
    and "\<not> (if get_type env = ''spdx'' then validate_spdx env else validate_cyclonedx env)"
  shows "parse_sbom env (filename m) (validate m) = Inr []
       \<and> read_modules env m = Inr []
       \<and> parsed_rows db [] = []
       \<and> scan_file db env m = Inr (sbom_data m)
       \<and> scan_file db env (m\<lparr>sbom_data := Map.empty\<rparr>) = Inr Map.empty"
proof -
  have p: "parse_sbom env (filename m) (validate m) = Inr []"
    using assms by (simp add: parse_sbom_def)
  then have r: "read_modules env m = Inr []"
    using assms(3) by (simp add: read_modules_def)
  have "read_modules env (m\<lparr>sbom_data := Map.empty\<rparr>) = read_modules env m"
    by (simp add: read_modules_def)
  with p r show ?thesis
    by (simp add: scan_file_def parsed_rows_def)
qed

theorem validation_failure_empty_witness:
  "scan_file (\<lambda>p. [(''facebook'', p)])
     \<lparr>path_exists = True,
      parse_file = Inr (Some [\<lparr>externalreference = None, pkg_name = Some ''zstandard'',
                              pkg_version = Some ''0.18.0''\<rparr>]),
      get_type = ''spdx'', validate_spdx = False, validate_cyclonedx = True, swid_parse = Inr []\<rparr>
     (init_manager ''sbom.xml'' ''spdx'' True) = Inr Map.empty
   \<and> parse_sbom
     \<lparr>path_exists = True,
      parse_file = Inr (Some [\<lparr>externalreference = None, pkg_name = Some ''zstandard'',
                              pkg_version = Some ''0.18.0''\<rparr>]),
      get_type = ''spdx'', validate_spdx = False, validate_cyclonedx = True, swid_parse = Inr []\<rparr>
     ''sbom.xml'' True = Inr []"
  using validation_failure_empty [of "init_manager ''sbom.xml'' ''spdx'' True"
      "\<lparr>path_exists = True,
      parse_file = Inr (Some [\<lparr>externalreference = None, pkg_name = Some ''zstandard'',
                              pkg_version = Some ''0.18.0''\<rparr>]),
      get_type = ''spdx'', validate_spdx = False, validate_cyclonedx = True, swid_parse = Inr []\<rparr>"
      "Some [\<lparr>externalreference = None, pkg_name = Some ''zstandard'',
                              pkg_version = Some ''0.18.0''\<rparr>]" "\<lambda>p. [(''facebook'', p)]"]
  by (simp add: init_manager_def endswith_def)

subsection \<open>Emitted versions\<close>

lemma parse_package_version:
  "parse_package package = Inr (Some (v, n, ver)) \<Longrightarrow> ver \<noteq> []"
  by (auto simp: parse_package_def falsy_def Let_def
      split: sum.splits option.splits if_splits prod.splits)

lemma parse_packages_versions:
  "parse_packages ps = Inr ms \<Longrightarrow> md \<in> set ms \<Longrightarrow> snd (snd md) \<noteq> []"
proof (induction ps arbitrary: ms)
  case Nil
  then show ?case by simp
next
  case (Cons p ps)
  from Cons.prems(1) obtain x xs where x: "parse_package p = Inr x"
    and xs: "parse_packages ps = Inr xs"
    and ms: "ms = (case x of None \<Rightarrow> [] | Some y \<Rightarrow> [y]) @ xs"
    by (auto split: sum.splits)
  show ?case
  proof (cases "md \<in> set xs")
    case True
    then show ?thesis using Cons.IH [OF xs] by simp
  next
    case False
    with Cons.prems(2) ms have "x = Some md" by (cases x) auto
    with x have "parse_package p = Inr (Some (fst md, fst (snd md), snd (snd md)))" by simp
    then show ?thesis by (rule parse_package_version)
  qed
qed

lemma parse_sbom_versions:
  "parse_sbom env fname val = Inr ms \<Longrightarrow> md \<in> set ms \<Longrightarrow> snd (snd md) \<noteq> []"
  by (auto simp: parse_sbom_def split: sum.splits option.splits if_splits
      dest: parse_packages_versions)

lemma read_modules_versions:
  assumes "sbom_type m \<noteq> ''swid''" and "read_modules env m = Inr ms" and "md \<in> set ms"
  shows "snd (snd md) \<noteq> []"
proof (cases "path_exists env")
  case True
  with assms(1,2) have "parse_sbom env (filename m) (validate m) = Inr ms \<or> ms = []"
    by (auto simp: read_modules_def split: sum.splits if_splits)
  with assms(3) show ?thesis
    using parse_sbom_versions by fastforce
next
  case False
  with assms show ?thesis by (simp add: read_modules_def)
qed

lemma module_rows_version:
  "row \<in> set (module_rows db (v, p, ver)) \<Longrightarrow> version row = ver \<and> product row = lower p"
  by (auto simp: module_rows_def Let_def split: option.splits)

lemma parsed_rows_versions:
  assumes "\<And>md. md \<in> set ms \<Longrightarrow> snd (snd md) \<noteq> []" and "row \<in> set (parsed_rows db ms)"
  shows "version row \<noteq> []"
proof -
  from assms(2) obtain md where md: "md \<in> set ms" "row \<in> set (module_rows db md)"
    by (auto simp: parsed_rows_def)
  obtain v p ver where "md = (v, p, ver)" by (cases md) auto
  with md assms(1) [of md] module_rows_version [of row db v p ver] show ?thesis by auto
qed

lemma search_field_nonempty: "search_field key ls = Some x \<Longrightarrow> x \<noteq> []"
  by (auto simp: search_field_def find_Some_iff split: option.splits)

lemma python_versions:
  assumes "si \<in> set (python_run_checker db fname ls)"
  shows "version (product_info si) \<noteq> []"
proof (cases "search_field ''Name: '' (take 3 ls)")
  case None
  with assms show ?thesis by (simp add: python_run_checker_def)
next
  case n: (Some p)
  show ?thesis
  proof (cases "search_field ''Version: '' (take 3 ls)")
    case None
    with assms n show ?thesis by (simp add: python_run_checker_def)
  next
    case (Some ver)
    with assms n have "version (product_info si) = ver"
      by (auto simp: python_run_checker_def Let_def split: if_splits)
    with search_field_nonempty [OF Some] show ?thesis by simp
  qed
qed

text \<open>
  C3, as the code has it. Every record that SPDX or CycloneDX ingestion adds to the
  mapping has a non-empty version, and so has every module \<open>parse_package\<close> emits; a
  package for which neither the preferred reference nor the declared fields give a
  version adds no module. Every record of the Python metadata parser has a non-empty
  version. The npm lock file parser has no version filter of its own: each pair of
  \<open>product_version_mapping\<close>, whatever its version, goes to \<open>find_vendor\<close>, and what
  that returns is yielded.
\<close>

theorem emitted_versions:
  "(sbom_type m \<noteq> ''swid'' \<and> scan_file db env m = Inr data \<and> data row \<noteq> None
      \<and> sbom_data m row = None \<longrightarrow> version row \<noteq> [])
   \<and> ((case externalreference package of None \<Rightarrow> Inr (None, None, None)
        | Some refs \<Rightarrow> parse_ext_ref refs) = Inr (v, n, ver)
      \<and> falsy ver \<and> (pkg_version package = None \<or> pkg_version package = Some [])
      \<longrightarrow> parse_package package
          = (if falsy n \<and> pkg_name package = None then Inl KeyError else Inr None))
   \<and> (parse_package package = Inr (Some md) \<longrightarrow> snd (snd md) \<noteq> [])
   \<and> (si \<in> set (python_run_checker db fname lines) \<longrightarrow> version (product_info si) \<noteq> [])
   \<and> (product_version_mapping lock = Inr pvm \<longrightarrow>
        run_checker fv lock
          = (yield_from (if ''name'' \<in> fst ` set lock \<and> ''version'' \<in> fst ` set lock
                         then fv (dict_get lock ''name'') (dict_get lock ''version'') else None)
               @ concat (map (\<lambda>(p, ver). yield_from (fv (JStr p) ver)) pvm), None))"
proof -
  have a: "version row \<noteq> []"
    if "sbom_type m \<noteq> ''swid''" "scan_file db env m = Inr data" "data row \<noteq> None"
      "sbom_data m row = None"
  proof -
    from that(2) obtain ms where ms: "read_modules env m = Inr ms"
      and data: "data = store_rows (sbom_data m) (parsed_rows db ms)"
      by (auto simp: scan_file_def split: sum.splits)
    from that(3,4) have "row \<in> dom data" "row \<notin> dom (sbom_data m)" by auto
    then have "row \<in> set (parsed_rows db ms)"
      unfolding data dom_store_rows by simp
    then show ?thesis
      using parsed_rows_versions [OF read_modules_versions [OF that(1) ms]] by blast
  qed
  have b: "parse_package package
          = (if falsy n \<and> pkg_name package = None then Inl KeyError else Inr None)"
    if "(case externalreference package of None \<Rightarrow> Inr (None, None, None)
        | Some refs \<Rightarrow> parse_ext_ref refs) = Inr (v, n, ver)"
      "falsy ver" "pkg_version package = None \<or> pkg_version package = Some []"
    using that(2,3) unfolding parse_package_def that(1)
    by (auto simp: falsy_def Let_def split: option.splits)
  have c: "snd (snd md) \<noteq> []" if "parse_package package = Inr (Some md)"
    using that parse_package_version [of package "fst md" "fst (snd md)" "snd (snd md)"] by simp
  have d: "run_checker fv lock
          = (yield_from (if ''name'' \<in> fst ` set lock \<and> ''version'' \<in> fst ` set lock
                         then fv (dict_get lock ''name'') (dict_get lock ''version'') else None)
               @ concat (map (\<lambda>(p, ver). yield_from (fv (JStr p) ver)) pvm), None)"
    if "product_version_mapping lock = Inr pvm"
    using that by (simp add: run_checker_def Let_def)
  show ?thesis
    using a b c d python_versions [of si db fname lines] by blast
qed


theorem emitted_versions_witness:
  "scan_file (\<lambda>p. if p = ''zstandard'' then [(''facebook'', ''zstandard'')] else [])
     \<lparr>path_exists = True,
      parse_file = Inr (Some [\<lparr>externalreference = None, pkg_name = Some ''zstandard'',
                              pkg_version = Some ''0.18.0''\<rparr>]),
      get_type = ''spdx'', validate_spdx = True, validate_cyclonedx = True, swid_parse = Inr []\<rparr>
     (init_manager ''sbom.xml'' ''spdx'' True)
     = Inr [\<lparr>vendor = ''facebook'', product = ''zstandard'', version = ''0.18.0''\<rparr> \<mapsto> new_triage]
   \<and> parse_package \<lparr>externalreference = None, pkg_name = Some ''zstandard'', pkg_version = None\<rparr>
     = Inr None
   \<and> python_run_checker (\<lambda>p. if p = ''zstandard'' then [(''facebook'', ''zstandard'')] else [])
        ''PKG-INFO'' [''Metadata-Version: 2.1'', ''Name: zstandard'', ''Version: 0.18.0'']
     = [\<lparr>product_info = \<lparr>vendor = ''facebook'', product = ''zstandard'', version = ''0.18.0''\<rparr>,
         file_path = ''PKG-INFO''\<rparr>]
   \<and> run_checker (find_vendor (\<lambda>p. [(''acme'', p)]))
        [(''lockfileVersion'', JNum 2),
         (''packages'', JObj [(''node_modules/foo'', JObj [(''version'', JStr ''1.2.3'')])])]
     = ([\<lparr>vendor = ''acme'', product = ''foo'', version = JStr ''1.2.3''\<rparr>], None)"
proof -
  let ?db = "\<lambda>p. if p = ''zstandard'' then [(''facebook'', ''zstandard'')] else []"
  let ?env = "\<lparr>path_exists = True,
      parse_file = Inr (Some [\<lparr>externalreference = None, pkg_name = Some ''zstandard'',
                              pkg_version = Some ''0.18.0''\<rparr>]),
      get_type = ''spdx'', validate_spdx = True, validate_cyclonedx = True, swid_parse = Inr []\<rparr>"
  let ?row = "\<lparr>vendor = ''facebook'', product = ''zstandard'', version = ''0.18.0''\<rparr>"
  let ?lock = "[(''lockfileVersion'', JNum 2),
         (''packages'', JObj [(''node_modules/foo'', JObj [(''version'', JStr ''1.2.3'')])])]"
  let ?si = "\<lparr>product_info = ?row, file_path = ''PKG-INFO''\<rparr>"
  have low: "lower ''zstandard'' = ''zstandard''"
    by (simp add: lower_def lower_char_def upper_letters_def)
  have scan: "scan_file ?db ?env (init_manager ''sbom.xml'' ''spdx'' True) = Inr [?row \<mapsto> new_triage]"
    by (simp add: scan_file_def read_modules_def parse_sbom_def init_manager_def endswith_def
        parse_package_def falsy_def parsed_rows_def module_rows_def get_vendor_def low)
  have im: "sbom_type (init_manager ''sbom.xml'' ''spdx'' True) = ''spdx''"
    "sbom_data (init_manager ''sbom.xml'' ''spdx'' True) = Map.empty"
    by (simp_all add: init_manager_def)
  have py: "python_run_checker ?db ''PKG-INFO''
              [''Metadata-Version: 2.1'', ''Name: zstandard'', ''Version: 0.18.0''] = [?si]"
    by (simp add: python_run_checker_def search_field_def startswith_def)
  have pvm: "product_version_mapping ?lock = Inr [(''foo'', JStr ''1.2.3'')]"
    by (simp add: product_version_mapping_def dict_get_def requires_of_def get_package_name_def)
  have fv: "find_vendor (\<lambda>p. [(''acme'', p)]) (JStr ''foo'') (JStr ''1.2.3'')
              = Some [\<lparr>vendor = ''acme'', product = ''foo'', version = JStr ''1.2.3''\<rparr>]"
    by (simp add: find_vendor_def resolve_def)
  show ?thesis
    using emitted_versions [where m = "init_manager ''sbom.xml'' ''spdx'' True" and db = ?db
        and env = ?env and data = "[?row \<mapsto> new_triage]" and row = ?row
        and package = "\<lparr>externalreference = None, pkg_name = Some ''zstandard'', pkg_version = None\<rparr>"
        and v = None and n = None and ver = None and si = ?si and fname = "''PKG-INFO''"
        and lines = "[''Metadata-Version: 2.1'', ''Name: zstandard'', ''Version: 0.18.0'']"
        and lock = ?lock and pvm = "[(''foo'', JStr ''1.2.3'')]"
        and fv = "find_vendor (\<lambda>p. [(''acme'', p)])"]
    by (simp add: scan py pvm fv im falsy_def yield_from_def)
qed

text \<open>
  C3 fails for the npm lock file parser: a package entry without a \<^verbatim>\<open>version\<close> key and
  one whose version is the empty string both reach vendor lookup, and the records
  carry the absent and the empty version.
\<close>

theorem npm_absent_version_counterexample:
  "run_checker (find_vendor (\<lambda>p. [(''acme'', p)]))
     [(''lockfileVersion'', JNum 2),
      (''packages'', JObj [(''node_modules/foo'', JObj [(''resolved'', JStr ''../foo''),
                                                       (''link'', JBool True)]),
                          (''node_modules/bar'', JObj [(''version'', JStr [])])])]
   = ([\<lparr>vendor = ''acme'', product = ''foo'', version = JNull\<rparr>,
       \<lparr>vendor = ''acme'', product = ''bar'', version = JStr []\<rparr>], None)"
  by (simp add: run_checker_def product_version_mapping_def dict_get_def requires_of_def
      get_package_name_def find_vendor_def resolve_def yield_from_def)

subsection \<open>The UNKNOWN vendor\<close>









subsection \<open>The prefix fallback\<close>








subsection \<open>npm lock files\<close>









text \<open>
  C8. In the older layout a dependency given as a plain version string makes
  \<open>run_checker\<close> raise: the pair is computed as for the object form, then
  \<^verbatim>\<open>.get("requires", {})\<close> is called on the string. The same dependency given as an
  object with a \<^verbatim>\<open>version\<close> field gives the pair.
\<close>

theorem legacy_flat_string_raises:
  "product_version_mapping
     [(''lockfileVersion'', JNum 1), (''dependencies'', JObj [(''foo'', JStr ''1.0.0'')])]
     = Inl AttributeError
   \<and> run_checker (find_vendor (\<lambda>p. [(''acme'', p)]))
       [(''lockfileVersion'', JNum 1), (''dependencies'', JObj [(''foo'', JStr ''1.0.0'')])]
     = ([], Some AttributeError)
   \<and> product_version_mapping
       [(''lockfileVersion'', JNum 1),
        (''dependencies'', JObj [(''foo'', JObj [(''version'', JStr ''1.0.0'')])])]
     = Inr [(''foo'', JStr ''1.0.0'')]
   \<and> run_checker (find_vendor (\<lambda>p. [(''acme'', p)]))
       [(''lockfileVersion'', JNum 1),
        (''dependencies'', JObj [(''foo'', JObj [(''version'', JStr ''1.0.0'')])])]
     = ([\<lparr>vendor = ''acme'', product = ''foo'', version = JStr ''1.0.0''\<rparr>], None)
   \<and> legacy_version (JStr ''1.0.0'') = legacy_version (JObj [(''version'', JStr ''1.0.0'')])"
  by (simp add: run_checker_def product_version_mapping_def dict_get_def requires_of_def
      get_package_name_def legacy_version_def find_vendor_def resolve_def yield_from_def)

subsection \<open>Package URLs\<close>

lemma partition_at_absent: "sep \<notin> set s \<Longrightarrow> partition_at sep s = None"
  by (simp add: partition_at_def)

lemma rpartition_at_absent: "sep \<notin> set s \<Longrightarrow> rpartition_at sep s = None"
  by (simp add: rpartition_at_def partition_at_def)

lemma partition_at_first:
  "sep \<notin> set a \<Longrightarrow> partition_at sep (a @ sep # b) = Some (a, b)"
  by (induction a) (auto simp: partition_at_def)

lemma rpartition_at_last:
  "sep \<notin> set b \<Longrightarrow> rpartition_at sep (a @ sep # b) = Some (a, b)"
  using partition_at_first [of sep "rev b" "rev a"]
  by (simp add: rpartition_at_def)

lemma lowercase_in_product_alphabet:
  "c \<in> set lowercase_product_alphabet \<Longrightarrow> c \<in> set product_alphabet"
  by (auto simp: lowercase_product_alphabet_def product_alphabet_def)

lemma lowercase_not_upper:
  "c \<in> set lowercase_product_alphabet \<Longrightarrow> c \<notin> set upper_letters"
  unfolding lowercase_product_alphabet_def lower_letters_def digit_chars_def upper_letters_def
  by auto

lemma product_separators:
  "c \<in> set lowercase_product_alphabet \<Longrightarrow> c \<notin> set ''#?:/@''"
  unfolding lowercase_product_alphabet_def lower_letters_def digit_chars_def
  by auto

lemma version_separators:
  "c \<in> set version_alphabet \<Longrightarrow> c \<notin> set ''#?:/@''"
  unfolding version_alphabet_def lower_letters_def digit_chars_def upper_letters_def
  by auto


lemma generate_purl_normalised:
  assumes "set p \<subseteq> set lowercase_product_alphabet" and "p \<noteq> []"
    and "set ver \<subseteq> set version_alphabet" and "ver \<noteq> []"
  shows "generate_purl p ver vnd [] None = Some (''pkg:npm/'' @ p @ ''@'' @ ver)"
proof -
  have f: "filter (\<lambda>c. c \<in> set product_alphabet) p = p"
    using assms(1) lowercase_in_product_alphabet by (auto intro: filter_True)
  have l: "lower p = p"
    unfolding lower_def
    by (intro map_idI) (use assms(1) lowercase_not_upper in \<open>auto simp: lower_char_def\<close>)
  have v: "filter (\<lambda>c. c \<in> set version_alphabet) ver = ver"
    using assms(3) by (auto intro: filter_True)
  show ?thesis
    using assms(2,4) by (simp add: generate_purl_def f l v base_generate_purl_def)
qed

lemma purl_from_string_generated:
  assumes "set p \<subseteq> set lowercase_product_alphabet" and "p \<noteq> []"
    and "set ver \<subseteq> set version_alphabet" and "ver \<noteq> []"
  shows "purl_from_string (''pkg:npm/'' @ p @ ''@'' @ ver)
         = Inr \<lparr>purl_type = ''npm'', purl_namespace = None, purl_name = p,
                purl_version = Some ver, purl_qualifiers = None, purl_subpath = None\<rparr>"
proof -
  define s4 where "s4 = p @ ''@'' @ ver"
  define s3 where "s3 = ''npm/'' @ s4"
  define s where "s = ''pkg:'' @ s3"
  have pn: "\<And>c. c \<in> set ''#?:/@'' \<Longrightarrow> c \<notin> set p"
    using assms(1) product_separators by blast
  have vn: "\<And>c. c \<in> set ''#?:/@'' \<Longrightarrow> c \<notin> set ver"
    using assms(3) version_separators by blast
  have h: "rpartition_at CHR ''#'' s = None"
    by (rule rpartition_at_absent) (use pn vn in \<open>auto simp: s_def s3_def s4_def\<close>)
  have q: "rpartition_at CHR ''?'' s = None"
    by (rule rpartition_at_absent) (use pn vn in \<open>auto simp: s_def s3_def s4_def\<close>)
  have c: "partition_at CHR '':'' s = Some (''pkg'', s3)"
    using partition_at_first [of "CHR '':''" "''pkg''" s3] by (simp add: s_def)
  have dw: "dropWhile (\<lambda>c. c = CHR ''/'') s3 = s3"
    by (simp add: s3_def)
  have t: "partition_at CHR ''/'' s3 = Some (''npm'', s4)"
    using partition_at_first [of "CHR ''/''" "''npm''" s4] by (simp add: s3_def)
  have a: "rpartition_at CHR ''@'' s4 = Some (p, ver)"
    using rpartition_at_last [of "CHR ''@''" ver p] vn by (simp add: s4_def)
  have n: "rpartition_at CHR ''/'' p = None"
    by (rule rpartition_at_absent) (use pn in auto)
  have "purl_from_string s
         = Inr \<lparr>purl_type = ''npm'', purl_namespace = None, purl_name = p,
                purl_version = Some ver, purl_qualifiers = None, purl_subpath = None\<rparr>"
    using assms(2,4) by (simp add: purl_from_string_def h q c dw t a n or_None_def)
  then show ?thesis
    by (simp add: s_def s3_def s4_def)
qed

text \<open>
  C5, as the code has it. \<open>decode_purl\<close> returns the version the Package URL carries
  and nothing else: vendor and product are always \<open>None\<close>. For a non-empty product
  over \<^verbatim>\<open>[a-z0-9._-]\<close> and a non-empty version over \<^verbatim>\<open>[A-Za-z0-9.+-]\<close>, \<open>generate_purl\<close>
  leaves both unchanged, the Package URL it writes parses to that name and that
  version, and \<open>decode_purl\<close> recovers the version.
\<close>

theorem purl_round_trip:
  assumes "set p \<subseteq> set lowercase_product_alphabet" and "p \<noteq> []"
    and "set ver \<subseteq> set version_alphabet" and "ver \<noteq> []"
  shows "generate_purl p ver vnd [] None = Some (''pkg:npm/'' @ p @ ''@'' @ ver)
       \<and> purl_from_string (''pkg:npm/'' @ p @ ''@'' @ ver)
           = Inr \<lparr>purl_type = ''npm'', purl_namespace = None, purl_name = p,
                  purl_version = Some ver, purl_qualifiers = None, purl_subpath = None\<rparr>
       \<and> decode_purl (''pkg:npm/'' @ p @ ''@'' @ ver) = Inr (None, None, Some ver)
       \<and> (\<forall>s v n x. decode_purl s = Inr (v, n, x) \<longrightarrow> v = None \<and> n = None)"
proof -
  have d: "v = None \<and> n = None" if "decode_purl s = Inr (v, n, x)" for s v n x
    using that by (auto simp: decode_purl_def split: sum.splits)
  show ?thesis
    using generate_purl_normalised [OF assms] purl_from_string_generated [OF assms] assms(4) d
    by (simp add: decode_purl_def or_None_def)
qed

theorem purl_round_trip_witness:
  "generate_purl ''lodash'' ''4.17.21'' ''npmjs'' [] None = Some ''pkg:npm/lodash@4.17.21''
   \<and> decode_purl ''pkg:npm/lodash@4.17.21'' = Inr (None, None, Some ''4.17.21'')
   \<and> purl_from_string ''pkg:npm/lodash@4.17.21''
       = Inr \<lparr>purl_type = ''npm'', purl_namespace = None, purl_name = ''lodash'',
              purl_version = Some ''4.17.21'', purl_qualifiers = None, purl_subpath = None\<rparr>"
proof -
  have a: "set ''lodash'' \<subseteq> set lowercase_product_alphabet"
    by (simp add: lowercase_product_alphabet_def lower_letters_def)
  have b: "set ''4.17.21'' \<subseteq> set version_alphabet"
    by (simp add: version_alphabet_def digit_chars_def)
  show ?thesis
    using purl_round_trip [OF a _ b, of "''npmjs''"] by simp
qed

text \<open>
  C5 fails for the product: the Package URL of lodash 4.17.21 carries the name
  \<^verbatim>\<open>lodash\<close>, and \<open>decode_purl\<close> returns no product.
\<close>

theorem decode_purl_product_counterexample:
  "decode_purl ''pkg:npm/lodash@4.17.21'' = Inr (None, None, Some ''4.17.21'')
   \<and> purl_name (projr (purl_from_string ''pkg:npm/lodash@4.17.21'')) = ''lodash''
   \<and> fst (snd (projr (decode_purl ''pkg:npm/lodash@4.17.21''))) \<noteq> Some ''lodash''"
  by code_simp

end
